theory Spec2Isabelle
  imports Complex_Main
begin

section \<open>Errors\<close>

text \<open>
  The exceptions the modelled functions can raise. \<open>StorageError\<close> stands for any
  exception raised by the storage engine (\<open>client.database.set\<close>, \<open>set_many\<close>),
  \<open>HTTPException\<close> for a failure of the external membership system.
\<close>

datatype error = IndexError | KeyError | TypeError | StorageError | HTTPException

section \<open>Rank Calculator (utils/utils.py)\<close>

text \<open>
  The completion data of one player, as \<open>get_completions_data\<close> returns it: a dict
  from the difficulty name to the tuple (completions, gold, silver, bronze).
\<close>

type_synonym amounts = "string \<rightharpoonup> (int \<times> int \<times> int \<times> int)"

definition RANK_THRESHOLD :: "int list" where
  "RANK_THRESHOLD = [10, 10, 10, 10, 5, 2]"

text \<open>
  Modelled from the spec: \<open>utils.DIFFICULTIES\<close> is declared outside the source files at
  hand. The loop of \<open>rank_finder\<close> skips its first entry (``Ignore Beginner''), the
  thresholds are given ``over buckets (Easy, Medium, Hard, Very Hard, Extreme, Hell)'',
  and \<open>DIFF_TO_RANK\<close> in utils/maps.py has exactly these seven keys.
\<close>

definition DIFFICULTIES :: "string list" where
  "DIFFICULTIES =
     [''Beginner'', ''Easy'', ''Medium'', ''Hard'', ''Very Hard'', ''Extreme'', ''Hell'']"

text \<open>
  The body of the \<open>for i, diff in enumerate(...)\<close> loop of \<open>rank_finder\<close>. The
  arguments are the thresholds, the dict, the index \<open>i\<close>, the difficulties still to
  visit and the running \<open>rank\<close> and \<open>rank_plus\<close>. \<open>break\<close> returns the running pair;
  \<open>_RANK_THRESHOLD[i]\<close> out of range raises. The membership test comes first and
  short-circuits, as \<open>or\<close> does.
\<close>

fun rank_loop ::
  "int list \<Rightarrow> amounts \<Rightarrow> nat \<Rightarrow> string list \<Rightarrow> int \<Rightarrow> int \<Rightarrow> error + (int \<times> int)" where
  "rank_loop thr amounts i [] rank rank_plus = Inr (rank, rank_plus)"
| "rank_loop thr amounts i (diff # rest) rank rank_plus =
     (case amounts diff of
        None \<Rightarrow> Inr (rank, rank_plus)
      | Some a \<Rightarrow>
          if length thr \<le> i then Inl IndexError
          else if fst a < thr ! i then Inr (rank, rank_plus)
          else if fst a \<ge> thr ! i then
            (let rank' = rank + 1;
                 rank_plus' = (if fst (snd a) \<ge> thr ! i \<and> rank_plus + 1 = rank'
                               then rank_plus + 1 else rank_plus)
             in rank_loop thr amounts (Suc i) rest rank' rank_plus')
          else rank_loop thr amounts (Suc i) rest rank rank_plus)"

text \<open>\<open>rank_finder\<close>, from the dict that \<open>get_completions_data\<close> returned.\<close>

definition rank_finder :: "amounts \<Rightarrow> error + (int \<times> int)" where
  "rank_finder amounts = rank_loop RANK_THRESHOLD amounts 0 (tl DIFFICULTIES) 0 0"

text \<open>
  The test the loop makes at bucket \<open>diff\<close> with threshold \<open>t\<close>: the bucket is in the
  dict and its completion count reaches the threshold.
\<close>

definition bucket_passes :: "amounts \<Rightarrow> string \<Rightarrow> int \<Rightarrow> bool" where
  "bucket_passes amounts diff t =
     (case amounts diff of None \<Rightarrow> False | Some a \<Rightarrow> \<not> fst a < t)"

text \<open>
  The order on completion data used for monotonicity: every bucket present in \<open>a\<close> is
  present in \<open>b\<close> with a completion count at least as large.
\<close>

definition counts_le :: "amounts \<Rightarrow> amounts \<Rightarrow> bool" where
  "counts_le a b =
     (\<forall>d. case a d of
            None \<Rightarrow> True
          | Some x \<Rightarrow> (case b d of None \<Rightarrow> False | Some y \<Rightarrow> fst x \<le> fst y))"

section \<open>Role Reconciler (utils/utils.py)\<close>

text \<open>Python's slices \<open>xs[:n]\<close> and \<open>xs[n:]\<close>; a negative bound counts from the end.\<close>

definition slice_to :: "'a list \<Rightarrow> int \<Rightarrow> 'a list" where
  "slice_to xs n = (if n < 0 then take (length xs - nat (- n)) xs else take (nat n) xs)"

definition slice_from :: "'a list \<Rightarrow> int \<Rightarrow> 'a list" where
  "slice_from xs n = (if n < 0 then drop (length xs - nat (- n)) xs else drop (nat n) xs)"

text \<open>
  A role is identified by its id (\<open>get_role\<close> maps the id to the role object, and role
  objects compare by id). \<open>discord.Member.roles\<close> is a property that builds a new list
  at every access, so \<open>new_roles = user.roles\<close> is a private copy of the roles the
  member holds, and the later \<open>user.roles\<close> still reads the held roles.
\<close>

record member =
  user_id :: int
  roles :: "int list"

text \<open>
  What \<open>auto_role\<close> uses of the client. \<open>utils.Roles.ranks()\<close> and
  \<open>utils.Roles.ranks_plus()\<close> are declared outside the source files at hand and are
  taken as parameters, as is the result of \<open>get_completions_data\<close> for each user id.
  The three flags say whether the external call raises: \<open>user.edit\<close>,
  \<open>client.database.set\<close> and \<open>user.send\<close>.
\<close>

record genji =
  ranks :: "int list"
  ranks_plus :: "int list"
  get_completions_data :: "int \<Rightarrow> error + amounts"
  edit_raises :: bool
  set_raises :: bool
  send_raises :: bool

text \<open>
  The external effects of \<open>auto_role\<close>, in the order they happen:
  \<open>Edit\<close> is \<open>user.edit(roles=new_roles)\<close>; \<open>SetRank uid rank\<close> is the statement
  \<open>UPDATE users SET rank=$2 WHERE user_id=$1\<close>; \<open>Dispatch_newsfeed_role\<close> is
  \<open>client.dispatch("newsfeed_role", client, user, added)\<close>; \<open>Send\<close> is
  \<open>user.send(response)\<close>, whose text lists the names of the added and of the removed
  roles.
\<close>

datatype effect =
    Edit int "int list"
  | SetRank int int
  | Dispatch_newsfeed_role int "int list"
  | Send int "int list" "int list"

definition added_roles :: "int list \<Rightarrow> int list \<Rightarrow> int list \<Rightarrow> int \<Rightarrow> int \<Rightarrow> int list" where
  "added_roles rank_roles rank_plus_roles held rank rank_plus =
     filter (\<lambda>x. x \<notin> set held) (slice_to rank_roles rank)
     @ filter (\<lambda>x. x \<notin> set held) (slice_to rank_plus_roles rank_plus)"

definition removed_roles :: "int list \<Rightarrow> int list \<Rightarrow> int list \<Rightarrow> int \<Rightarrow> int \<Rightarrow> int list" where
  "removed_roles rank_roles rank_plus_roles held rank rank_plus =
     filter (\<lambda>x. x \<in> set held) (slice_from rank_roles (rank + 1))
     @ filter (\<lambda>x. x \<in> set held) (slice_from rank_plus_roles (rank_plus + 1))"

text \<open>The two \<open>for\<close> loops that build \<open>new_roles\<close>; \<open>list.remove\<close> deletes the first occurrence.\<close>

definition build_new_roles :: "int list \<Rightarrow> int list \<Rightarrow> int list \<Rightarrow> int list" where
  "build_new_roles held added removed =
     foldl (\<lambda>new_roles r. if r \<in> set new_roles then remove1 r new_roles else new_roles)
       (foldl (\<lambda>new_roles a. if a \<notin> set new_roles then new_roles @ [a] else new_roles)
          held added)
       removed"

text \<open>
  \<open>auto_role\<close> returns the exception that escaped (if any), the effects that took place
  and the member afterwards. An exception of \<open>user.edit\<close> or of the storage engine
  propagates and ends the run; one of \<open>user.send\<close> is suppressed. After a successful
  \<open>user.edit\<close> the member holds \<open>new_roles\<close>.
\<close>

definition auto_role :: "genji \<Rightarrow> member \<Rightarrow> error option \<times> effect list \<times> member" where
  "auto_role client user =
     (case get_completions_data client (user_id user) of
        Inl e \<Rightarrow> (Some e, [], user)
      | Inr amounts \<Rightarrow>
     (case rank_finder amounts of
        Inl e \<Rightarrow> (Some e, [], user)
      | Inr (rank, rank_plus) \<Rightarrow>
          (let rank_roles = tl (ranks client);
               rank_plus_roles = tl (ranks_plus client);
               added = added_roles rank_roles rank_plus_roles (roles user) rank rank_plus;
               removed = removed_roles rank_roles rank_plus_roles (roles user) rank rank_plus;
               new_roles = build_new_roles (roles user) added removed;
               changed = (set new_roles \<noteq> set (roles user))
           in if changed \<and> edit_raises client then (Some HTTPException, [], user)
              else if changed \<and> set_raises client
                then (Some StorageError, [Edit (user_id user) new_roles],
                      user\<lparr>roles := new_roles\<rparr>)
              else
                (None,
                 (if changed then [Edit (user_id user) new_roles, SetRank (user_id user) rank]
                  else [])
                 @ (if added \<noteq> [] then [Dispatch_newsfeed_role (user_id user) added] else [])
                 @ (if (added \<noteq> [] \<or> removed \<noteq> []) \<and> \<not> send_raises client
                    then [Send (user_id user) added removed] else []),
                 if changed then user\<lparr>roles := new_roles\<rparr> else user))))"

section \<open>Submission Writer (utils/maps.py)\<close>

text \<open>
  The dataclass \<open>MapSubmission\<close>. \<open>creator\<close> holds \<open>creator.id\<close>, the only attribute
  of the creator that the writer reads. The medal cutoffs are Python floats; they are
  modelled as rationals, which have the same test for zero.
\<close>

record MapSubmission =
  creator :: int
  map_code :: string
  map_name :: string
  checkpoint_count :: int
  description :: "string option"
  medals :: "(rat \<times> rat \<times> rat) option"
  guides :: "string list option"
  map_types :: "string list option"
  mechanics :: "string list option"
  restrictions :: "string list option"
  difficulty :: "string option"

text \<open>
  The accessors \<open>gold\<close>, \<open>silver\<close>, \<open>bronze\<close>: \<open>self.medals and self.medals[i]\<close> is
  true when the tuple is there and its entry is not zero.
\<close>

definition gold :: "MapSubmission \<Rightarrow> rat option" where
  "gold s = (case medals s of
               None \<Rightarrow> None
             | Some (g, sv, b) \<Rightarrow> if g \<noteq> 0 then Some g else None)"

definition silver :: "MapSubmission \<Rightarrow> rat option" where
  "silver s = (case medals s of
                 None \<Rightarrow> None
               | Some (g, sv, b) \<Rightarrow> if sv \<noteq> 0 then Some sv else None)"

definition bronze :: "MapSubmission \<Rightarrow> rat option" where
  "bronze s = (case medals s of
                 None \<Rightarrow> None
               | Some (g, sv, b) \<Rightarrow> if b \<noteq> 0 then Some b else None)"

text \<open>
  \<open>medals_str\<close>; \<open>formatted_medals\<close> is its local list of that name, before the
  join. The emoji constants \<open>utils.FULLY_VERIFIED_GOLD\<close>, \<open>_SILVER\<close>, \<open>_BRONZE\<close>
  are declared outside the source files at hand, and the text of a float is Python's;
  both are parameters.
\<close>

record medal_format =
  FULLY_VERIFIED_GOLD :: string
  FULLY_VERIFIED_SILVER :: string
  FULLY_VERIFIED_BRONZE :: string
  float_str :: "rat \<Rightarrow> string"

fun join :: "string \<Rightarrow> string list \<Rightarrow> string" where
  "join sep [] = []"
| "join sep [x] = x"
| "join sep (x # y # ys) = x @ sep @ join sep (y # ys)"

definition formatted_medals :: "medal_format \<Rightarrow> MapSubmission \<Rightarrow> string list" where
  "formatted_medals f s =
     (case gold s of None \<Rightarrow> [] | Some g \<Rightarrow> [FULLY_VERIFIED_GOLD f @ '' '' @ float_str f g])
     @ (case silver s of None \<Rightarrow> []
        | Some sv \<Rightarrow> [FULLY_VERIFIED_SILVER f @ '' '' @ float_str f sv])
     @ (case bronze s of None \<Rightarrow> []
        | Some b \<Rightarrow> [FULLY_VERIFIED_BRONZE f @ '' '' @ float_str f b])"

definition medals_str :: "medal_format \<Rightarrow> MapSubmission \<Rightarrow> string" where
  "medals_str f s =
     (if formatted_medals f s = [] then [] else join '' | '' (formatted_medals f s))"

text \<open>
  The tables the writer inserts into, each as the list of its rows in insertion order.
  A row holds the parameters of the \<open>INSERT\<close> statement in the order of its columns.
\<close>

datatype table =
    Maps | Map_mechanics | Map_restrictions | Map_creators | Map_ratings
  | Guides | Map_medals | Map_submission_dates

record database =
  t_maps :: "(string \<times> string list option \<times> string \<times> string option \<times> bool \<times> int) list"
  t_map_mechanics :: "(string \<times> string) list"
  t_map_restrictions :: "(string \<times> string) list"
  t_map_creators :: "(string \<times> int) list"
  t_map_ratings :: "(string \<times> int \<times> rat) list"
  t_guides :: "(string \<times> string) list"
  t_map_medals :: "(rat option \<times> rat option \<times> rat option \<times> string) list"
  t_map_submission_dates :: "(int \<times> string) list"

text \<open>
  Modelled from the spec: \<open>client.database.set\<close> and \<open>set_many\<close> belong to the module
  \<open>database\<close>, which is not among the source files at hand. The spec gives their
  contract: a ``parameterized single-row query/execute'' and a ``parameterized multi-row
  batch insert'', each of which ``may fail with a generic storage error''. A call is one
  statement: it either raises and stores nothing, or stores its rows. \<open>raises t\<close>
  says that the statement on table \<open>t\<close> fails.
\<close>

definition db_set ::
  "(table \<Rightarrow> bool) \<Rightarrow> table \<Rightarrow> (database \<Rightarrow> database) \<Rightarrow> database
     \<Rightarrow> error option \<times> database" where
  "db_set raises t store db =
     (if raises t then (Some StorageError, db) else (None, store db))"

definition insert_maps ::
  "(table \<Rightarrow> bool) \<Rightarrow> MapSubmission \<Rightarrow> bool \<Rightarrow> database \<Rightarrow> error option \<times> database" where
  "insert_maps raises s is_mod db =
     db_set raises Maps
       (\<lambda>db. db\<lparr>t_maps := t_maps db @
                  [(map_name s, map_types s, map_code s, description s, is_mod,
                    checkpoint_count s)]\<rparr>) db"

definition insert_mechanics ::
  "(table \<Rightarrow> bool) \<Rightarrow> MapSubmission \<Rightarrow> database \<Rightarrow> error option \<times> database" where
  "insert_mechanics raises s db =
     (case mechanics s of
        None \<Rightarrow> (Some TypeError, db)
      | Some ms \<Rightarrow>
          db_set raises Map_mechanics
            (\<lambda>db. db\<lparr>t_map_mechanics := t_map_mechanics db @ map (\<lambda>x. (map_code s, x)) ms\<rparr>)
            db)"

definition insert_restrictions ::
  "(table \<Rightarrow> bool) \<Rightarrow> MapSubmission \<Rightarrow> database \<Rightarrow> error option \<times> database" where
  "insert_restrictions raises s db =
     (case restrictions s of
        None \<Rightarrow> (Some TypeError, db)
      | Some rs \<Rightarrow>
          db_set raises Map_restrictions
            (\<lambda>db. db\<lparr>t_map_restrictions :=
                       t_map_restrictions db @ map (\<lambda>x. (map_code s, x)) rs\<rparr>)
            db)"

definition insert_map_creators ::
  "(table \<Rightarrow> bool) \<Rightarrow> MapSubmission \<Rightarrow> database \<Rightarrow> error option \<times> database" where
  "insert_map_creators raises s db =
     db_set raises Map_creators
       (\<lambda>db. db\<lparr>t_map_creators := t_map_creators db @ [(map_code s, creator s)]\<rparr>) db"

text \<open>
  \<open>utils.DIFFICULTIES_RANGES\<close> is declared outside the source files at hand and is a
  parameter: a dict from the difficulty name to its range, whose lower end is stored.
  A difficulty that is not a key raises \<open>KeyError\<close> before the statement is sent.
\<close>

definition insert_map_ratings ::
  "(table \<Rightarrow> bool) \<Rightarrow> (string option \<rightharpoonup> rat \<times> rat) \<Rightarrow> MapSubmission \<Rightarrow> database
     \<Rightarrow> error option \<times> database" where
  "insert_map_ratings raises DIFFICULTIES_RANGES s db =
     (case DIFFICULTIES_RANGES (difficulty s) of
        None \<Rightarrow> (Some KeyError, db)
      | Some bounds \<Rightarrow>
          db_set raises Map_ratings
            (\<lambda>db. db\<lparr>t_map_ratings :=
                       t_map_ratings db @ [(map_code s, creator s, fst bounds)]\<rparr>)
            db)"

definition insert_guide ::
  "(table \<Rightarrow> bool) \<Rightarrow> MapSubmission \<Rightarrow> database \<Rightarrow> error option \<times> database" where
  "insert_guide raises s db =
     (case guides s of
        None \<Rightarrow> (Some TypeError, db)
      | Some gs \<Rightarrow>
          (let guides' = map (\<lambda>guide. (map_code s, guide)) (filter (\<lambda>guide. guide \<noteq> []) gs)
           in if guides' \<noteq> []
              then db_set raises Guides (\<lambda>db. db\<lparr>t_guides := t_guides db @ guides'\<rparr>) db
              else (None, db)))"

definition insert_medals ::
  "(table \<Rightarrow> bool) \<Rightarrow> MapSubmission \<Rightarrow> database \<Rightarrow> error option \<times> database" where
  "insert_medals raises s db =
     (if medals s \<noteq> None
      then db_set raises Map_medals
             (\<lambda>db. db\<lparr>t_map_medals :=
                        t_map_medals db @ [(gold s, silver s, bronze s, map_code s)]\<rparr>)
             db
      else (None, db))"

definition insert_timestamp ::
  "(table \<Rightarrow> bool) \<Rightarrow> MapSubmission \<Rightarrow> bool \<Rightarrow> database \<Rightarrow> error option \<times> database" where
  "insert_timestamp raises s is_mod db =
     (if \<not> is_mod
      then db_set raises Map_submission_dates
             (\<lambda>db. db\<lparr>t_map_submission_dates :=
                        t_map_submission_dates db @ [(creator s, map_code s)]\<rparr>)
             db
      else (None, db))"

text \<open>
  A sequence of awaited writes: an exception raised by one of them propagates, and the
  writes after it are not run.
\<close>

fun run_steps ::
  "(database \<Rightarrow> error option \<times> database) list \<Rightarrow> database \<Rightarrow> error option \<times> database" where
  "run_steps [] db = (None, db)"
| "run_steps (f # fs) db =
     (case f db of
        (None, db') \<Rightarrow> run_steps fs db'
      | (Some e, db') \<Rightarrow> (Some e, db'))"

definition insert_steps ::
  "(table \<Rightarrow> bool) \<Rightarrow> (string option \<rightharpoonup> rat \<times> rat) \<Rightarrow> MapSubmission \<Rightarrow> bool
     \<Rightarrow> (database \<Rightarrow> error option \<times> database) list" where
  "insert_steps raises DIFFICULTIES_RANGES s is_mod =
     [insert_maps raises s is_mod,
      insert_mechanics raises s,
      insert_restrictions raises s,
      insert_map_creators raises s,
      insert_map_ratings raises DIFFICULTIES_RANGES s,
      insert_guide raises s,
      insert_medals raises s,
      insert_timestamp raises s is_mod]"

definition insert_all ::
  "(table \<Rightarrow> bool) \<Rightarrow> (string option \<rightharpoonup> rat \<times> rat) \<Rightarrow> MapSubmission \<Rightarrow> bool \<Rightarrow> database
     \<Rightarrow> error option \<times> database" where
  "insert_all raises DIFFICULTIES_RANGES s is_mod db =
     run_steps (insert_steps raises DIFFICULTIES_RANGES s is_mod) db"

definition empty_database :: database where
  "empty_database =
     \<lparr>t_maps = [], t_map_mechanics = [], t_map_restrictions = [], t_map_creators = [],
      t_map_ratings = [], t_guides = [], t_map_medals = [], t_map_submission_dates = []\<rparr>"

text \<open>
  A submission used as concrete input below: two guide links, the first one empty, a
  gold cutoff of zero, and the range table restricted to the difficulty it uses.
\<close>

definition example_submission :: MapSubmission where
  "example_submission =
     \<lparr>creator = 42, map_code = ''ABC12'', map_name = ''Hanamura'', checkpoint_count = 10,
      description = None, medals = Some (0, 45, 60),
      guides = Some ['''', ''https://a.b/c''], map_types = Some [''Classic''],
      mechanics = Some [''Bhop''], restrictions = Some [''Dash Start''],
      difficulty = Some ''Easy''\<rparr>"

definition example_ranges :: "string option \<rightharpoonup> rat \<times> rat" where
  "example_ranges = [Some ''Easy'' \<mapsto> (59 / 100, 235 / 100)]"

section \<open>Properties of the Rank Calculator\<close>

text \<open>
  The loop never raises when the thresholds cover the buckets still to visit, the running
  rank never decreases, and \<open>rank_plus\<close> stays between 0 and the rank.
\<close>

lemma rank_loop_total:
  "i + length rest \<le> length thr \<Longrightarrow> \<exists>r p. rank_loop thr a i rest rank rp = Inr (r, p)"
proof (induction rest arbitrary: i rank rp)
  case Nil
  then show ?case by simp
next
  case (Cons d rest)
  have "Suc i + length rest \<le> length thr" using Cons.prems by simp
  from Cons.IH [OF this] show ?case using Cons.prems
    by (simp split: option.split add: Let_def)
qed

lemma rank_loop_ge:
  "rank_loop thr a i rest rank rp = Inr (r, p) \<Longrightarrow> rank \<le> r"
proof (induction rest arbitrary: i rank rp)
  case Nil
  then show ?case by simp
next
  case (Cons d rest)
  show ?case
  proof (cases "a d")
    case None
    with Cons.prems show ?thesis by simp
  next
    case (Some x)
    show ?thesis
    proof (cases "length thr \<le> i \<or> fst x < thr ! i")
      case True
      with Cons.prems Some show ?thesis by (auto split: if_splits)
    next
      case False
      with Cons.prems Some obtain q where
        "rank_loop thr a (Suc i) rest (rank + 1) q = Inr (r, p)"
        by (auto simp: Let_def split: if_splits)
      from Cons.IH [OF this] show ?thesis by simp
    qed
  qed
qed

lemma rank_loop_bounds:
  "rank_loop thr a i rest rank rp = Inr (r, p) \<Longrightarrow> 0 \<le> rp \<Longrightarrow> rp \<le> rank
     \<Longrightarrow> 0 \<le> p \<and> p \<le> r"
proof (induction rest arbitrary: i rank rp)
  case Nil
  then show ?case by simp
next
  case (Cons d rest)
  show ?case
  proof (cases "a d")
    case None
    with Cons.prems show ?thesis by simp
  next
    case (Some x)
    show ?thesis
    proof (cases "length thr \<le> i \<or> fst x < thr ! i")
      case True
      with Cons.prems Some show ?thesis by (auto split: if_splits)
    next
      case False
      define q where "q = (if fst (snd x) \<ge> thr ! i \<and> rp + 1 = rank + 1 then rp + 1 else rp)"
      from False Cons.prems Some have run: "rank_loop thr a (Suc i) rest (rank + 1) q = Inr (r, p)"
        by (auto simp: Let_def q_def split: if_splits)
      have "0 \<le> q" "q \<le> rank + 1" using Cons.prems by (auto simp: q_def)
      from Cons.IH [OF run this] show ?thesis .
    qed
  qed
qed

lemma rank_loop_first_fail:
  "k < length rest \<Longrightarrow> i + length rest \<le> length thr
     \<Longrightarrow> (\<And>j. j < k \<Longrightarrow> bucket_passes a (rest ! j) (thr ! (i + j)))
     \<Longrightarrow> \<not> bucket_passes a (rest ! k) (thr ! (i + k))
     \<Longrightarrow> \<exists>p. rank_loop thr a i rest rank rp = Inr (rank + int k, p)"
proof (induction rest arbitrary: i k rank rp)
  case Nil
  then show ?case by simp
next
  case (Cons d rest)
  show ?case
  proof (cases k)
    case 0
    with Cons.prems show ?thesis
      by (auto simp: bucket_passes_def split: option.splits)
  next
    case (Suc k')
    have p0: "bucket_passes a d (thr ! i)" using Cons.prems(3) [of 0] Suc by simp
    then obtain x where x: "a d = Some x" "\<not> fst x < thr ! i"
      by (auto simp: bucket_passes_def split: option.splits)
    have len: "Suc i + length rest \<le> length thr" "k' < length rest"
      using Cons.prems Suc by auto
    have below: "\<And>j. j < k' \<Longrightarrow> bucket_passes a (rest ! j) (thr ! (Suc i + j))"
      using Cons.prems(3) [of "Suc j" for j] Suc by simp
    have atk: "\<not> bucket_passes a (rest ! k') (thr ! (Suc i + k'))"
      using Cons.prems(4) Suc by simp
    from Cons.IH [OF len(2) len(1) below atk]
    have ih: "\<And>rank rp. \<exists>p. rank_loop thr a (Suc i) rest rank rp = Inr (rank + int k', p)"
      by blast
    then have "\<And>rp. \<exists>p. rank_loop thr a (Suc i) rest (rank + 1) rp = Inr (rank + int k, p)"
    proof -
      fix rp
      obtain p where "rank_loop thr a (Suc i) rest (rank + 1) rp = Inr (rank + 1 + int k', p)"
        using ih [of "rank + 1" rp] by blast
      then show "\<exists>p. rank_loop thr a (Suc i) rest (rank + 1) rp = Inr (rank + int k, p)"
        using Suc by (simp add: add.assoc)
    qed
    then show ?thesis using x Cons.prems(2)
      by (simp add: Let_def)
  qed
qed

lemma rank_loop_all_pass:
  "i + length rest \<le> length thr
     \<Longrightarrow> (\<And>j. j < length rest \<Longrightarrow> bucket_passes a (rest ! j) (thr ! (i + j)))
     \<Longrightarrow> \<exists>p. rank_loop thr a i rest rank rp = Inr (rank + int (length rest), p)"
proof (induction rest arbitrary: i rank rp)
  case Nil
  then show ?case by simp
next
  case (Cons d rest)
  have p0: "bucket_passes a d (thr ! i)" using Cons.prems(2) [of 0] by simp
  then obtain x where x: "a d = Some x" "\<not> fst x < thr ! i"
    by (auto simp: bucket_passes_def split: option.splits)
  have len: "Suc i + length rest \<le> length thr" using Cons.prems by simp
  have below: "\<And>j. j < length rest \<Longrightarrow> bucket_passes a (rest ! j) (thr ! (Suc i + j))"
    using Cons.prems(2) [of "Suc j" for j] by simp
  from Cons.IH [OF len below]
  have ih: "\<And>rank rp. \<exists>p. rank_loop thr a (Suc i) rest rank rp = Inr (rank + int (length rest), p)"
    by blast
  then have "\<And>rp. \<exists>p. rank_loop thr a (Suc i) rest (rank + 1) rp
                       = Inr (rank + int (length (d # rest)), p)"
  proof -
    fix rp
    obtain p where "rank_loop thr a (Suc i) rest (rank + 1) rp = Inr (rank + 1 + int (length rest), p)"
      using ih [of "rank + 1" rp] by blast
    then show "\<exists>p. rank_loop thr a (Suc i) rest (rank + 1) rp
                       = Inr (rank + int (length (d # rest)), p)"
      by (simp add: add.assoc)
  qed
  then show ?case using x Cons.prems(1)
    by (simp add: Let_def)
qed

lemma rank_loop_mono:
  "counts_le a b \<Longrightarrow> i + length rest \<le> length thr
     \<Longrightarrow> rank_loop thr a i rest rank rp = Inr (r, p)
     \<Longrightarrow> rank_loop thr b i rest rank rp' = Inr (r', p')
     \<Longrightarrow> r \<le> r'"
proof (induction rest arbitrary: i rank rp rp')
  case Nil
  then show ?case by simp
next
  case (Cons d rest)
  show ?case
  proof (cases "bucket_passes a d (thr ! i)")
    case False
    then have "r = rank" using Cons.prems(2,3)
      by (auto simp: bucket_passes_def split: option.splits if_splits)
    then show ?thesis using rank_loop_ge [OF Cons.prems(4)] by simp
  next
    case True
    then obtain x where x: "a d = Some x" "\<not> fst x < thr ! i"
      by (auto simp: bucket_passes_def split: option.splits)
    have "case a d of None \<Rightarrow> True
            | Some x \<Rightarrow> (case b d of None \<Rightarrow> False | Some y \<Rightarrow> fst x \<le> fst y)"
      using Cons.prems(1) unfolding counts_le_def by blast
    then obtain y where y: "b d = Some y" "fst x \<le> fst y"
      using x(1) by (cases "b d") simp_all
    have ny: "\<not> fst y < thr ! i" using x y by simp
    have len: "Suc i + length rest \<le> length thr" "\<not> length thr \<le> i" using Cons.prems(2) by auto
    obtain q where ra: "rank_loop thr a (Suc i) rest (rank + 1) q = Inr (r, p)"
      using Cons.prems(3) x len by (auto simp: Let_def split: if_splits)
    obtain q' where rb: "rank_loop thr b (Suc i) rest (rank + 1) q' = Inr (r', p')"
      using Cons.prems(4) y ny len by (auto simp: Let_def split: if_splits)
    from Cons.IH [OF Cons.prems(1) len(1) ra rb] show ?thesis .
  qed
qed

lemma tl_DIFFICULTIES:
  "tl DIFFICULTIES = [''Easy'', ''Medium'', ''Hard'', ''Very Hard'', ''Extreme'', ''Hell'']"
  by (simp add: DIFFICULTIES_def)

lemma length_buckets: "length (tl DIFFICULTIES) = 6" "length RANK_THRESHOLD = 6"
  by (simp_all add: DIFFICULTIES_def RANK_THRESHOLD_def)

lemma rank_finder_total: "\<exists>r p. rank_finder amounts = Inr (r, p)"
  unfolding rank_finder_def by (rule rank_loop_total) (simp add: length_buckets del: length_tl)


lemma rank_finder_mono:
  assumes "counts_le a b"
  shows "\<exists>r p r' p'. rank_finder a = Inr (r, p) \<and> rank_finder b = Inr (r', p') \<and> r \<le> r'"
proof -
  obtain r p where ra: "rank_finder a = Inr (r, p)" using rank_finder_total by blast
  obtain r' p' where rb: "rank_finder b = Inr (r', p')" using rank_finder_total by blast
  have "0 + length (tl DIFFICULTIES) \<le> length RANK_THRESHOLD" by (simp add: length_buckets del: length_tl)
  from rank_loop_mono [OF assms this ra [unfolded rank_finder_def] rb [unfolded rank_finder_def]]
  show ?thesis using ra rb by blast
qed

text \<open>
  C3 (as amended): the Rank Calculator walks the six non-entry buckets (Easy, Medium,
  Hard, Very Hard, Extreme, Hell) in increasing difficulty order and stops at the first
  bucket that is missing or whose completion count is below that bucket's threshold. If
  bucket \<open>k\<close> is the first that fails, the rank is \<open>k\<close>, the number of buckets strictly
  below \<open>k\<close> that passed, whatever the buckets above \<open>k\<close> hold; if no bucket fails, the
  rank is 6.
\<close>

theorem rank_finder_contiguity:
  "length (tl DIFFICULTIES) = 6 \<and>
   (k < 6 \<and> (\<forall>j<k. bucket_passes amounts (tl DIFFICULTIES ! j) (RANK_THRESHOLD ! j))
      \<and> \<not> bucket_passes amounts (tl DIFFICULTIES ! k) (RANK_THRESHOLD ! k)
    \<longrightarrow> (\<exists>rank_plus. rank_finder amounts = Inr (int k, rank_plus))
        \<and> length (filter (\<lambda>j. bucket_passes amounts (tl DIFFICULTIES ! j) (RANK_THRESHOLD ! j))
                    [0..<k]) = k) \<and>
   ((\<forall>j<6. bucket_passes amounts (tl DIFFICULTIES ! j) (RANK_THRESHOLD ! j))
    \<longrightarrow> (\<exists>rank_plus. rank_finder amounts = Inr (6, rank_plus)))"
proof (intro conjI impI)
  show "length (tl DIFFICULTIES) = 6" by (simp add: length_buckets del: length_tl)
next
  assume h: "k < 6 \<and> (\<forall>j<k. bucket_passes amounts (tl DIFFICULTIES ! j) (RANK_THRESHOLD ! j))
      \<and> \<not> bucket_passes amounts (tl DIFFICULTIES ! k) (RANK_THRESHOLD ! k)"
  have "\<exists>p. rank_loop RANK_THRESHOLD amounts 0 (tl DIFFICULTIES) 0 0 = Inr (0 + int k, p)"
    by (rule rank_loop_first_fail) (use h in \<open>simp_all add: length_buckets del: length_tl\<close>)
  then show "\<exists>rank_plus. rank_finder amounts = Inr (int k, rank_plus)"
    by (simp add: rank_finder_def)
next
  assume h: "k < 6 \<and> (\<forall>j<k. bucket_passes amounts (tl DIFFICULTIES ! j) (RANK_THRESHOLD ! j))
      \<and> \<not> bucket_passes amounts (tl DIFFICULTIES ! k) (RANK_THRESHOLD ! k)"
  then have "filter (\<lambda>j. bucket_passes amounts (tl DIFFICULTIES ! j) (RANK_THRESHOLD ! j)) [0..<k]
               = [0..<k]"
    by (intro filter_True) simp
  then show "length (filter (\<lambda>j. bucket_passes amounts (tl DIFFICULTIES ! j) (RANK_THRESHOLD ! j))
                    [0..<k]) = k"
    by simp
next
  assume h: "\<forall>j<6. bucket_passes amounts (tl DIFFICULTIES ! j) (RANK_THRESHOLD ! j)"
  have "\<exists>p. rank_loop RANK_THRESHOLD amounts 0 (tl DIFFICULTIES) 0 0
               = Inr (0 + int (length (tl DIFFICULTIES)), p)"
    by (rule rank_loop_all_pass) (use h in \<open>simp_all add: length_buckets del: length_tl\<close>)
  then show "\<exists>rank_plus. rank_finder amounts = Inr (6, rank_plus)"
    by (simp add: rank_finder_def length_buckets del: length_tl)
qed

text \<open>
  Easy passes, Medium fails, Hard would pass: the rank is 1.
\<close>

theorem rank_finder_contiguity_witness:
  "\<exists>rank_plus. rank_finder [''Easy'' \<mapsto> (12, 0, 0, 0), ''Medium'' \<mapsto> (3, 0, 0, 0),
                             ''Hard'' \<mapsto> (50, 0, 0, 0)] = Inr (1, rank_plus)"
  using rank_finder_contiguity
    [of 1 "[''Easy'' \<mapsto> (12, 0, 0, 0), ''Medium'' \<mapsto> (3, 0, 0, 0), ''Hard'' \<mapsto> (50, 0, 0, 0)]"]
  by (simp add: bucket_passes_def tl_DIFFICULTIES RANK_THRESHOLD_def)

text \<open>
  C3 as stated speaks of five non-entry buckets. With every threshold met in all six
  buckets the walk reaches the sixth bucket and returns rank 6, where a walk over the
  first five would return 5.
\<close>

theorem rank_finder_five_buckets_counterexample:
  "rank_finder [''Easy'' \<mapsto> (10, 0, 0, 0), ''Medium'' \<mapsto> (10, 0, 0, 0),
                ''Hard'' \<mapsto> (10, 0, 0, 0), ''Very Hard'' \<mapsto> (10, 0, 0, 0),
                ''Extreme'' \<mapsto> (5, 0, 0, 0), ''Hell'' \<mapsto> (2, 0, 0, 0)] = Inr (6, 0) \<and>
   rank_loop RANK_THRESHOLD
     [''Easy'' \<mapsto> (10, 0, 0, 0), ''Medium'' \<mapsto> (10, 0, 0, 0),
      ''Hard'' \<mapsto> (10, 0, 0, 0), ''Very Hard'' \<mapsto> (10, 0, 0, 0),
      ''Extreme'' \<mapsto> (5, 0, 0, 0), ''Hell'' \<mapsto> (2, 0, 0, 0)]
     0 (take 5 (tl DIFFICULTIES)) 0 0 = Inr (5, 0)"
  by (simp add: rank_finder_def tl_DIFFICULTIES RANK_THRESHOLD_def)

text \<open>
  C4: for every input mapping the Rank Calculator returns a pair (rank, rank_plus) with
  rank \<open>\<ge>\<close> 0, rank_plus \<open>\<ge>\<close> 0 and rank_plus \<open>\<le>\<close> rank; for the empty input it returns
  (0, 0).
\<close>

theorem rank_finder_bounds:
  "(\<exists>rank rank_plus. rank_finder amounts = Inr (rank, rank_plus)
       \<and> 0 \<le> rank \<and> 0 \<le> rank_plus \<and> rank_plus \<le> rank)
   \<and> rank_finder Map.empty = Inr (0, 0)"
proof
  obtain r p where run: "rank_finder amounts = Inr (r, p)"
    using rank_finder_total by blast
  have "0 \<le> p \<and> p \<le> r"
    by (rule rank_loop_bounds [OF run [unfolded rank_finder_def]]) simp_all
  then show "\<exists>rank rank_plus. rank_finder amounts = Inr (rank, rank_plus)
       \<and> 0 \<le> rank \<and> 0 \<le> rank_plus \<and> rank_plus \<le> rank"
    using run by auto
next
  show "rank_finder Map.empty = Inr (0, 0)"
    by (simp add: rank_finder_def tl_DIFFICULTIES)
qed

text \<open>
  C6: the Rank Calculator is monotone in the completion counts. Raising the completion
  count of one bucket \<open>d\<close> to \<open>c'\<close> (the bucket may have been absent), all other
  buckets unchanged, never yields a smaller rank.
\<close>

theorem rank_finder_monotone:
  assumes "\<forall>a. amounts d = Some a \<longrightarrow> fst a \<le> c'"
  shows "\<exists>rank rank_plus rank' rank_plus'.
           rank_finder amounts = Inr (rank, rank_plus) \<and>
           rank_finder (amounts(d \<mapsto> (c', medal_counts))) = Inr (rank', rank_plus') \<and>
           rank \<le> rank'"
proof (rule rank_finder_mono)
  show "counts_le amounts (amounts(d \<mapsto> (c', medal_counts)))"
    unfolding counts_le_def using assms by (auto split: option.splits)
qed

theorem rank_finder_monotone_witness:
  "\<exists>rank rank_plus rank' rank_plus'.
     rank_finder [''Easy'' \<mapsto> (9, 2, 0, 0)] = Inr (rank, rank_plus) \<and>
     rank_finder ([''Easy'' \<mapsto> (9, 2, 0, 0)](''Easy'' \<mapsto> (10, 2, 0, 0))) = Inr (rank', rank_plus') \<and>
     rank \<le> rank'"
  using rank_finder_monotone [of "[''Easy'' \<mapsto> (9, 2, 0, 0)]" "''Easy''" 10 "(2, 0, 0)"]
  by simp

text \<open>
  C7: with the thresholds (10, 10, 10, 10, 5, 2) over the buckets (Easy, Medium, Hard,
  Very Hard, Extreme, Hell), the Rank Calculator returns (2, 0) on
  {Easy: (12, 4, 0, 0), Medium: (10, 1, 0, 0)} and (2, 1) on
  {Easy: (15, 15, 0, 0), Medium: (10, 5, 0, 0)}.
\<close>

theorem rank_finder_scenarios:
  "RANK_THRESHOLD = [10, 10, 10, 10, 5, 2] \<and>
   tl DIFFICULTIES = [''Easy'', ''Medium'', ''Hard'', ''Very Hard'', ''Extreme'', ''Hell''] \<and>
   rank_finder [''Easy'' \<mapsto> (12, 4, 0, 0), ''Medium'' \<mapsto> (10, 1, 0, 0)] = Inr (2, 0) \<and>
   rank_finder [''Easy'' \<mapsto> (15, 15, 0, 0), ''Medium'' \<mapsto> (10, 5, 0, 0)] = Inr (2, 1)"
  by (simp add: rank_finder_def RANK_THRESHOLD_def DIFFICULTIES_def)

section \<open>Properties of the Role Reconciler\<close>





lemma build_new_roles_Nil: "build_new_roles h [] [] = h"
  by (simp add: build_new_roles_def)







text \<open>
  Three runs on concrete data, evaluated step by step: the ladders are
  \<open>[100, ..., 106]\<close> and \<open>[200, ..., 206]\<close>, whose first entries are the entry tier.
\<close>

lemma example_ranks:
  "rank_finder [''Easy'' \<mapsto> (10, 0, 0, 0)] = Inr (1, 0)"
  "rank_finder [''Easy'' \<mapsto> (10, 10, 0, 0)] = Inr (1, 1)"
  "rank_finder [''Easy'' \<mapsto> (10, 0, 0, 0), ''Medium'' \<mapsto> (10, 0, 0, 0)] = Inr (2, 0)"
  by (simp_all add: rank_finder_def RANK_THRESHOLD_def DIFFICULTIES_def)

lemma example_added:
  "added_roles [101, 102, 103, 104, 105, 106] [201, 202, 203, 204, 205, 206] [101, 104] 1 0 = []"
  "added_roles [101, 102, 103, 104, 105, 106] [201, 202, 203, 204, 205, 206] [104] 1 1
     = [101, 201]"
  "added_roles [101, 102, 103, 104, 105, 106] [201, 202, 203, 204, 205, 206] [101, 102, 103] 2 0
     = []"
  by (simp_all add: added_roles_def slice_to_def)

lemma example_removed:
  "removed_roles [101, 102, 103, 104, 105, 106] [201, 202, 203, 204, 205, 206] [101, 104] 1 0
     = [104]"
  "removed_roles [101, 102, 103, 104, 105, 106] [201, 202, 203, 204, 205, 206] [104] 1 1
     = [104]"
  "removed_roles [101, 102, 103, 104, 105, 106] [201, 202, 203, 204, 205, 206] [101, 102, 103] 2 0
     = []"
  by (simp_all add: removed_roles_def slice_from_def)

lemma example_new_roles:
  "build_new_roles [101, 104] [] [104] = [101]"
  "build_new_roles [104] [101, 201] [104] = [101, 201]"
  by (simp_all add: build_new_roles_def)

lemmas example_runs =
  example_ranks example_added example_removed example_new_roles build_new_roles_Nil

text \<open>
  C2 (as amended): whenever the role list that \<open>auto_role\<close> computes (the held roles,
  plus the added, minus the removed ones) differs as a set from the held roles, and
  neither \<open>user.edit\<close> nor the storage engine raises, \<open>auto_role\<close> sets the member's
  roles to that list on the external membership system and persists the new rank, and
  only the rank, on the player's stored record. It emits the \<open>newsfeed_role\<close> event,
  which carries the added roles only, exactly when a role was added.
\<close>

theorem auto_role_on_change:
  assumes "get_completions_data client (user_id user) = Inr amounts"
    and "rank_finder amounts = Inr (rank, rank_plus)"
    and "added = added_roles (tl (ranks client)) (tl (ranks_plus client)) (roles user) rank rank_plus"
    and "removed = removed_roles (tl (ranks client)) (tl (ranks_plus client)) (roles user) rank rank_plus"
    and "new_roles = build_new_roles (roles user) added removed"
    and "set new_roles \<noteq> set (roles user)"
    and "\<not> edit_raises client" and "\<not> set_raises client"
  shows "auto_role client user =
           (None,
            [Edit (user_id user) new_roles, SetRank (user_id user) rank]
            @ (if added \<noteq> [] then [Dispatch_newsfeed_role (user_id user) added] else [])
            @ (if \<not> send_raises client then [Send (user_id user) added removed] else []),
            user\<lparr>roles := new_roles\<rparr>)"
proof -
  have "added \<noteq> [] \<or> removed \<noteq> []"
    using assms(5,6) by (auto simp: build_new_roles_Nil)
  then show ?thesis using assms
    by (simp add: auto_role_def Let_def)
qed

theorem auto_role_on_change_witness:
  "auto_role
     \<lparr>ranks = [100, 101, 102, 103, 104, 105, 106],
      ranks_plus = [200, 201, 202, 203, 204, 205, 206],
      get_completions_data = (\<lambda>uid. Inr [''Easy'' \<mapsto> (10, 10, 0, 0)]),
      edit_raises = False, set_raises = False, send_raises = False\<rparr>
     \<lparr>user_id = 7, roles = [104]\<rparr>
   = (None,
      [Edit 7 [101, 201], SetRank 7 1, Dispatch_newsfeed_role 7 [101, 201],
       Send 7 [101, 201] [104]],
      \<lparr>user_id = 7, roles = [101, 201]\<rparr>)"
  using auto_role_on_change
    [of "\<lparr>ranks = [100, 101, 102, 103, 104, 105, 106],
          ranks_plus = [200, 201, 202, 203, 204, 205, 206],
          get_completions_data = (\<lambda>uid. Inr [''Easy'' \<mapsto> (10, 10, 0, 0)]),
          edit_raises = False, set_raises = False, send_raises = False\<rparr>"
        "\<lparr>user_id = 7, roles = [104]\<rparr>"
        "[''Easy'' \<mapsto> (10, 10, 0, 0)]" 1 1 "[101, 201]" "[104]" "[101, 201]"]
  by (simp add: example_runs)

text \<open>
  C2 as stated fails. A player of rank 1 who holds the roles of tiers 1 and 4 loses the
  role of tier 4: the roles are edited and the rank is stored, but no event is emitted,
  nothing the writer stores carries \<open>rank_plus\<close>, and the only message that names the
  removed role is the direct message to the player.
\<close>

theorem auto_role_event_counterexample:
  "auto_role
     \<lparr>ranks = [100, 101, 102, 103, 104, 105, 106],
      ranks_plus = [200, 201, 202, 203, 204, 205, 206],
      get_completions_data = (\<lambda>uid. Inr [''Easy'' \<mapsto> (10, 0, 0, 0)]),
      edit_raises = False, set_raises = False, send_raises = False\<rparr>
     \<lparr>user_id = 7, roles = [101, 104]\<rparr>
   = (None, [Edit 7 [101], SetRank 7 1, Send 7 [] [104]], \<lparr>user_id = 7, roles = [101]\<rparr>)"
  by (simp add: auto_role_def Let_def example_runs)

text \<open>
  C5: the removed roles should be the held ladder roles above the new target level.
  The code takes them from \<open>rank_roles[rank + 1:]\<close>, and \<open>rank_roles\<close> already lacks
  the entry tier, so the role of tier \<open>rank + 1\<close> is skipped. A player whose rank falls
  from 3 to 2 holds the roles of tiers 1, 2 and 3 (101, 102, 103): nothing is removed
  and the run has no effect.
\<close>

theorem removed_roles_skips_next_tier:
  "removed_roles (tl [100, 101, 102, 103, 104, 105, 106]) (tl [200, 201, 202, 203, 204, 205, 206])
     [101, 102, 103] 2 0 = [] \<and>
   auto_role
     \<lparr>ranks = [100, 101, 102, 103, 104, 105, 106],
      ranks_plus = [200, 201, 202, 203, 204, 205, 206],
      get_completions_data =
        (\<lambda>uid. Inr [''Easy'' \<mapsto> (10, 0, 0, 0), ''Medium'' \<mapsto> (10, 0, 0, 0)]),
      edit_raises = False, set_raises = False, send_raises = False\<rparr>
     \<lparr>user_id = 7, roles = [101, 102, 103]\<rparr>
   = (None, [], \<lparr>user_id = 7, roles = [101, 102, 103]\<rparr>)"
  by (simp add: auto_role_def Let_def example_runs)

text \<open>The same run, read off the theorem: the member keeps all three roles.\<close>

theorem removed_roles_skips_next_tier_witness:
  "roles (snd (snd (auto_role
     \<lparr>ranks = [100, 101, 102, 103, 104, 105, 106],
      ranks_plus = [200, 201, 202, 203, 204, 205, 206],
      get_completions_data =
        (\<lambda>uid. Inr [''Easy'' \<mapsto> (10, 0, 0, 0), ''Medium'' \<mapsto> (10, 0, 0, 0)]),
      edit_raises = False, set_raises = False, send_raises = False\<rparr>
     \<lparr>user_id = 7, roles = [101, 102, 103]\<rparr>))) = [101, 102, 103]"
  using removed_roles_skips_next_tier by simp



section \<open>Properties of the Submission Writer\<close>

lemmas insert_defs =
  insert_maps_def insert_mechanics_def insert_restrictions_def insert_map_creators_def
  insert_map_ratings_def insert_guide_def insert_medals_def insert_timestamp_def

text \<open>A write that raises leaves the database as it found it.\<close>

lemma insert_step_failure:
  assumes "f \<in> set (insert_steps raises R s is_mod)" and "fst (f db) = Some e"
  shows "snd (f db) = db"
  using assms
  by (auto simp: insert_steps_def insert_defs db_set_def Let_def split: option.splits if_splits)

lemma run_steps_append:
  "run_steps (fs @ gs) db =
     (case run_steps fs db of (None, db') \<Rightarrow> run_steps gs db' | (Some e, db') \<Rightarrow> (Some e, db'))"
  by (induction fs arbitrary: db) (auto split: prod.splits option.splits)

lemma run_steps_failure_at:
  assumes "k < length fs" and "run_steps (take k fs) db = (None, db_k)"
    and "(fs ! k) db_k = (Some e, db')"
  shows "run_steps fs db = (Some e, db')"
proof -
  have "fs = take k fs @ (fs ! k) # drop (Suc k) fs"
    using assms(1) by (simp add: id_take_nth_drop)
  then have "run_steps fs db = run_steps (take k fs @ (fs ! k) # drop (Suc k) fs) db"
    by simp
  also have "\<dots> = (Some e, db')"
    by (simp only: run_steps_append assms(2)) (simp add: assms(3))
  finally show ?thesis .
qed

lemma example_fields:
  "creator example_submission = 42"
  "map_code example_submission = ''ABC12''"
  "map_name example_submission = ''Hanamura''"
  "checkpoint_count example_submission = 10"
  "description example_submission = None"
  "medals example_submission = Some (0, 45, 60)"
  "guides example_submission = Some ['''', ''https://a.b/c'']"
  "map_types example_submission = Some [''Classic'']"
  "mechanics example_submission = Some [''Bhop'']"
  "restrictions example_submission = Some [''Dash Start'']"
  "difficulty example_submission = Some ''Easy''"
  "example_ranges (Some ''Easy'') = Some (59 / 100, 235 / 100)"
  by (simp_all add: example_submission_def example_ranges_def)

text \<open>
  C1 (as amended): the eight writes are eight separate statements with no transaction
  around them. If one of them fails, \<open>insert_all\<close> returns with that error and runs
  none of the later writes, and the database is as the writes before the failing one
  left it: their row groups stay persisted. In particular a failure of the fifth write
  leaves the rows of the first four groups visible.
\<close>

theorem insert_all_failure_keeps_earlier_groups:
  assumes "k < length (insert_steps raises R s is_mod)"
    and "run_steps (take k (insert_steps raises R s is_mod)) db = (None, db_k)"
    and "fst ((insert_steps raises R s is_mod ! k) db_k) = Some e"
  shows "insert_all raises R s is_mod db = (Some e, db_k)"
proof -
  have "insert_steps raises R s is_mod ! k \<in> set (insert_steps raises R s is_mod)"
    using assms(1) by (rule nth_mem)
  from insert_step_failure [OF this assms(3)]
  have "(insert_steps raises R s is_mod ! k) db_k = (Some e, db_k)"
    using assms(3) by (simp add: prod_eq_iff)
  from run_steps_failure_at [OF assms(1,2) this] show ?thesis
    by (simp add: insert_all_def)
qed

text \<open>The sixth write (guides) fails: the rows of the first five groups are stored.\<close>

theorem insert_all_failure_keeps_earlier_groups_witness:
  "insert_all (\<lambda>t. t = Guides) example_ranges example_submission False empty_database =
     (Some StorageError,
      empty_database
        \<lparr>t_maps := [(''Hanamura'', Some [''Classic''], ''ABC12'', None, False, 10)],
         t_map_mechanics := [(''ABC12'', ''Bhop'')],
         t_map_restrictions := [(''ABC12'', ''Dash Start'')],
         t_map_creators := [(''ABC12'', 42)],
         t_map_ratings := [(''ABC12'', 42, 59 / 100)]\<rparr>)"
  using insert_all_failure_keeps_earlier_groups
    [of 5 "\<lambda>t. t = Guides" example_ranges example_submission False empty_database
        "empty_database
           \<lparr>t_maps := [(''Hanamura'', Some [''Classic''], ''ABC12'', None, False, 10)],
            t_map_mechanics := [(''ABC12'', ''Bhop'')],
            t_map_restrictions := [(''ABC12'', ''Dash Start'')],
            t_map_creators := [(''ABC12'', 42)],
            t_map_ratings := [(''ABC12'', 42, 59 / 100)]\<rparr>"
        StorageError]
  by (simp add: insert_steps_def insert_defs db_set_def example_fields empty_database_def)

text \<open>
  C1 as stated fails: with a failure injected after the fourth group (the write to
  \<open>map_ratings\<close> raises), \<open>insert_all\<close> returns the storage error and the rows of
  maps, mechanics, restrictions and creators are in the database.
\<close>

theorem insert_all_not_atomic_counterexample:
  "insert_all (\<lambda>t. t = Map_ratings) example_ranges example_submission False empty_database =
     (Some StorageError,
      \<lparr>t_maps = [(''Hanamura'', Some [''Classic''], ''ABC12'', None, False, 10)],
       t_map_mechanics = [(''ABC12'', ''Bhop'')],
       t_map_restrictions = [(''ABC12'', ''Dash Start'')],
       t_map_creators = [(''ABC12'', 42)],
       t_map_ratings = [], t_guides = [], t_map_medals = [], t_map_submission_dates = []\<rparr>)"
  by (simp add: insert_all_def insert_steps_def insert_defs db_set_def example_fields
      empty_database_def)

text \<open>
  C9: when no write fails, for a populated submission (mechanics, restrictions and
  guides are lists, the difficulty has a range), the writer stores one guide row per
  non-empty guide link and none for an empty link, the medal row if and only if
  medals were supplied, the submission-timestamp row if and only if the submitter is
  not privileged, and the rows of the other five groups in every case.
\<close>

theorem insert_all_rows:
  assumes "\<forall>t. raises t = False"
    and "mechanics s = Some ms" and "restrictions s = Some rs" and "guides s = Some gs"
    and "R (difficulty s) = Some bounds"
  shows "insert_all raises R s is_mod db =
     (None,
      db\<lparr>t_maps := t_maps db @
            [(map_name s, map_types s, map_code s, description s, is_mod, checkpoint_count s)],
         t_map_mechanics := t_map_mechanics db @ map (\<lambda>x. (map_code s, x)) ms,
         t_map_restrictions := t_map_restrictions db @ map (\<lambda>x. (map_code s, x)) rs,
         t_map_creators := t_map_creators db @ [(map_code s, creator s)],
         t_map_ratings := t_map_ratings db @ [(map_code s, creator s, fst bounds)],
         t_guides := t_guides db @
            map (\<lambda>guide. (map_code s, guide)) (filter (\<lambda>guide. guide \<noteq> []) gs),
         t_map_medals := t_map_medals db @
            (if medals s \<noteq> None then [(gold s, silver s, bronze s, map_code s)] else []),
         t_map_submission_dates := t_map_submission_dates db @
            (if \<not> is_mod then [(creator s, map_code s)] else [])\<rparr>)"
  using assms
  by (simp add: insert_all_def insert_steps_def insert_defs db_set_def Let_def)

text \<open>Two guide links, one empty and one populated, give exactly one guide row.\<close>

theorem insert_all_rows_witness:
  "t_guides (snd (insert_all (\<lambda>t. False) example_ranges example_submission False
                    empty_database)) = [(''ABC12'', ''https://a.b/c'')]"
  using insert_all_rows
    [of "\<lambda>t. False" example_submission "[''Bhop'']" "[''Dash Start'']"
        "['''', ''https://a.b/c'']" example_ranges "(59 / 100, 235 / 100)" False empty_database]
  by (simp add: example_fields empty_database_def)

text \<open>
  C10: when the medals tuple is present, the accessors \<open>gold\<close>, \<open>silver\<close> and
  \<open>bronze\<close> return None for a cutoff equal to 0; such a cutoff has no entry in the
  formatted medal display and is stored as a null value by the medal-threshold write.
\<close>

theorem zero_cutoff_is_null:
  assumes "medals s = Some (g, sv, b)"
  shows "(g = 0 \<longrightarrow> gold s = None) \<and> (sv = 0 \<longrightarrow> silver s = None)
       \<and> (b = 0 \<longrightarrow> bronze s = None)
       \<and> formatted_medals f s =
           (if g = 0 then [] else [FULLY_VERIFIED_GOLD f @ '' '' @ float_str f g])
           @ (if sv = 0 then [] else [FULLY_VERIFIED_SILVER f @ '' '' @ float_str f sv])
           @ (if b = 0 then [] else [FULLY_VERIFIED_BRONZE f @ '' '' @ float_str f b])
       \<and> insert_medals (\<lambda>t. False) s db =
           (None, db\<lparr>t_map_medals := t_map_medals db @
              [(if g = 0 then None else Some g, if sv = 0 then None else Some sv,
                if b = 0 then None else Some b, map_code s)]\<rparr>)"
  using assms
  by (simp add: gold_def silver_def bronze_def formatted_medals_def insert_medals_def db_set_def)

theorem zero_cutoff_is_null_witness:
  "gold example_submission = None \<and>
   formatted_medals
     \<lparr>FULLY_VERIFIED_GOLD = ''G'', FULLY_VERIFIED_SILVER = ''S'', FULLY_VERIFIED_BRONZE = ''B'',
      float_str = (\<lambda>x. if x = 45 then ''45.0'' else ''60.0'')\<rparr> example_submission
     = [''S 45.0'', ''B 60.0''] \<and>
   t_map_medals (snd (insert_medals (\<lambda>t. False) example_submission empty_database))
     = [(None, Some 45, Some 60, ''ABC12'')]"
  using zero_cutoff_is_null
    [of example_submission 0 45 60
        "\<lparr>FULLY_VERIFIED_GOLD = ''G'', FULLY_VERIFIED_SILVER = ''S'',
          FULLY_VERIFIED_BRONZE = ''B'',
          float_str = (\<lambda>x. if x = 45 then ''45.0'' else ''60.0'')\<rparr>"
        empty_database]
  by (simp add: example_fields empty_database_def)

end
